theory Spec2Isabelle
  imports Complex_Main "HOL-Library.Log_Nat"
begin

section \<open>Data model (src/types.ts)\<close>

text \<open>
  TypeScript's \<open>number\<close> is used for three things in this program: pay amounts, grade
  identifiers (BPS) and stage indices. A pay amount is a finite IEEE double, modelled as
  the rational number it denotes; comparisons of doubles are comparisons of these
  rationals, and the products and the sum of lines 48 to 50 round to the nearest double
  (\<open>round64\<close> below). \<open>NaN\<close> and the infinities are not modelled (the form turns every
  unparsable entry into \<open>0\<close> before it reaches the calculation). Grades and stage
  indices are integers: a stage index is a loop counter or the initial \<open>-1\<close>.

  \<open>PayScale\<close> is an object indexed by grade; a missing key reads as \<open>undefined\<close>,
  which is \<open>None\<close> here. The two tables \<open>PAY_SCALE_2017\<close> and \<open>PAY_SCALE_2022\<close> are
  imported from a constants module and are parameters of every definition that reads
  them.
\<close>

type_synonym PayScale = "int \<Rightarrow> rat list option"

record SalaryInputs =
  bps :: int
  wasPromoted :: bool
  currentRunningBasicPay :: rat
  prePromotionBps :: int
  prePromotionBasicPay2017 :: rat

record CalculatedValues =
  basic2017 :: rat
  dra :: rat
  runningPayIncrease :: rat
  totalIncrease :: rat
  currentBasicPay :: rat

section \<open>calculateEnhancements (src/App.tsx, lines 17 to 53)\<close>

text \<open>
  Lines 18 to 42 determine \<open>basic2017\<close>, the base of the allowance, or leave the
  function with \<open>null\<close>. \<open>None\<close> is that early \<open>return null\<close>. An array is truthy
  even when it is empty, so \<open>!payScale2017ForBps\<close> holds exactly for a missing grade.
  The read \<open>payScale2017ForBps[stageIndex]\<close> is guarded by the range check before it.
\<close>

definition draBase :: "PayScale \<Rightarrow> SalaryInputs \<Rightarrow> int option \<Rightarrow> rat option" where
  "draBase PAY_SCALE_2017 inputs stage =
     (if wasPromoted inputs then
        (case PAY_SCALE_2017 (prePromotionBps inputs) of
           None \<Rightarrow> None
         | Some payScale2017ForBps \<Rightarrow> Some (prePromotionBasicPay2017 inputs))
      else
        (case stage of
           None \<Rightarrow> None
         | Some stageIndex \<Rightarrow>
             (case PAY_SCALE_2017 (bps inputs) of
                None \<Rightarrow> None
              | Some payScale2017ForBps \<Rightarrow>
                  if stageIndex < 0 \<or> stageIndex \<ge> int (length payScale2017ForBps)
                  then None
                  else Some (payScale2017ForBps ! nat stageIndex))))"

subsection \<open>Arithmetic on doubles\<close>

text \<open>
  \<open>binade x\<close> is the exponent \<open>e\<close> with \<open>2^e \<le> x < 2^(e+1)\<close> of a positive \<open>x\<close>.
  \<open>round64\<close> is round-to-nearest, ties-to-even, of binary64: 53 significant bits, and
  the fixed spacing \<open>2^-1074\<close> below \<open>2^-1022\<close> (gradual underflow). Overflow to infinity
  is not represented; it cannot occur in lines 48 to 50 on finite doubles, where both
  factors \<open>0.30\<close> and \<open>0.10\<close> are below one and the sum stays below \<open>0.4\<close> times the
  largest double. The literals \<open>0.30\<close> and \<open>0.10\<close> denote the doubles nearest to them.
\<close>

definition binade :: "rat \<Rightarrow> int" where
  "binade x = (if 1 \<le> x then bitlen \<lfloor>x\<rfloor> - 1 else - bitlen (\<lceil>1 / x\<rceil> - 1))"

definition roundHalfEven :: "rat \<Rightarrow> int" where
  "roundHalfEven x =
     (let f = \<lfloor>x\<rfloor>; d = x - of_int f
      in if d < 1 / 2 then f else if 1 / 2 < d then f + 1 else if even f then f else f + 1)"

definition round64 :: "rat \<Rightarrow> rat" where
  "round64 x =
     (if x = 0 then 0
      else
        (let a = \<bar>x\<bar>;
             q = 2 powi (max (binade a) (- 1022) - 52)
         in sgn x * of_int (roundHalfEven (a / q)) * q))"

definition times64 :: "rat \<Rightarrow> rat \<Rightarrow> rat" where
  "times64 x y = round64 (x * y)"

definition plus64 :: "rat \<Rightarrow> rat \<Rightarrow> rat" where
  "plus64 x y = round64 (x + y)"

subsection \<open>The amounts\<close>

text \<open>Lines 44 to 52: the positivity check and the three amounts.\<close>

definition enhance :: "rat \<Rightarrow> rat \<Rightarrow> CalculatedValues option" where
  "enhance b currentPay =
     (if b \<le> 0 \<or> currentPay \<le> 0 then None
      else
        (let d = times64 b (round64 0.30);
             r = times64 currentPay (round64 0.10);
             t = plus64 d r
         in Some \<lparr>basic2017 = b, dra = d, runningPayIncrease = r,
                  totalIncrease = t, currentBasicPay = currentPay\<rparr>))"

definition calculateEnhancements ::
  "PayScale \<Rightarrow> SalaryInputs \<Rightarrow> int option \<Rightarrow> CalculatedValues option" where
  "calculateEnhancements PAY_SCALE_2017 inputs stage =
     (case draBase PAY_SCALE_2017 inputs stage of
        None \<Rightarrow> None
      | Some b \<Rightarrow> enhance b (currentRunningBasicPay inputs))"

section \<open>The component state and the stage-detection effect (lines 140 to 197)\<close>

text \<open>
  The messages the component stores in its \<open>error\<close> state. The text of the second one
  is built from the grade and from \<open>formatCurrency\<close> applied to the first entry of the
  grade's 2022 sequence; the constructor carries both arguments, and the rendering by
  \<open>Intl.NumberFormat\<close> (no fraction digits) is outside the model.
\<close>

datatype message =
    InvalidBpsSelected
  | MustBeAtLeast int rat
  | CouldNotDetermineStage
  | PromotedNeedsPositive
  | NoValidStage
  | VerifyInputs

record app_state =
  inputs :: SalaryInputs
  results :: "CalculatedValues option"
  isLoading :: bool
  error :: "message option"
  foundStage :: "int option"

text \<open>
  The loop of lines 177 to 183 with its counter \<open>i\<close>; the result is
  \<open>detectedStageIndex\<close>, which stays \<open>-1\<close> when no entry is at or below the pay.
\<close>

function scanLoop :: "rat list \<Rightarrow> rat \<Rightarrow> int \<Rightarrow> int" where
  "scanLoop xs pay i =
     (if i \<ge> 0 then (if pay \<ge> xs ! nat i then i else scanLoop xs pay (i - 1))
      else - 1)"
  by pat_completeness auto
termination
  by (relation "measure (\<lambda>(xs, pay, i). nat (i + 1))") auto

declare scanLoop.simps [simp del]

text \<open>
  Every branch of the effect sets both \<open>foundStage\<close> and \<open>error\<close>. On an empty
  sequence \<open>payScale2022ForBps[0]\<close> is \<open>undefined\<close> and the comparison of line 169 is
  false, so the effect goes on to the loop, which then runs no iteration.
\<close>

definition stageEffect :: "PayScale \<Rightarrow> app_state \<Rightarrow> app_state" where
  "stageEffect PAY_SCALE_2022 st =
     (let i = inputs st in
      if wasPromoted i then st\<lparr>error := None, foundStage := None\<rparr>
      else if currentRunningBasicPay i > 0 \<and> bps i > 0 then
        (case PAY_SCALE_2022 (bps i) of
           None \<Rightarrow> st\<lparr>error := Some InvalidBpsSelected, foundStage := None\<rparr>
         | Some payScale2022ForBps \<Rightarrow>
             if payScale2022ForBps \<noteq> [] \<and> currentRunningBasicPay i < payScale2022ForBps ! 0
             then st\<lparr>error := Some (MustBeAtLeast (bps i) (payScale2022ForBps ! 0)),
                     foundStage := None\<rparr>
             else
               (let detectedStageIndex =
                      scanLoop payScale2022ForBps (currentRunningBasicPay i)
                        (int (length payScale2022ForBps) - 1)
                in if detectedStageIndex \<noteq> - 1
                   then st\<lparr>error := None, foundStage := Some detectedStageIndex\<rparr>
                   else st\<lparr>error := Some CouldNotDetermineStage, foundStage := None\<rparr>))
      else st\<lparr>error := None, foundStage := None\<rparr>)"

section \<open>handleCalculate (lines 219 to 251)\<close>

text \<open>
  The click handler and the callback it schedules are one step here: the delay of the
  timer is not modelled, and the callback works on the \<open>inputs\<close> and \<open>foundStage\<close> the
  handler closed over. \<open>error || calculationError\<close> keeps a stored message when there
  is one (no message of the component is the empty string). The button that calls the
  handler is disabled while a message is stored, so a click reaches it with
  \<open>error = None\<close>; the handler itself is defined for every state.
\<close>

definition handleCalculate :: "PayScale \<Rightarrow> app_state \<Rightarrow> app_state" where
  "handleCalculate PAY_SCALE_2017 st =
     (let i = inputs st;
          calculationError =
            (if wasPromoted i then
               (if prePromotionBasicPay2017 i \<le> 0 \<or> currentRunningBasicPay i \<le> 0
                then Some PromotedNeedsPositive else None)
             else
               (if foundStage st = None then Some NoValidStage else None))
      in if error st \<noteq> None \<or> calculationError \<noteq> None then
           st\<lparr>results := None, isLoading := False,
              error := (case error st of Some e \<Rightarrow> Some e | None \<Rightarrow> calculationError)\<rparr>
         else
           (case calculateEnhancements PAY_SCALE_2017 i (foundStage st) of
              Some calculated \<Rightarrow>
                st\<lparr>results := Some calculated, isLoading := False, error := None\<rparr>
            | None \<Rightarrow>
                st\<lparr>results := None, isLoading := False, error := Some VerifyInputs\<rparr>))"

text \<open>
  The callback of lines 241 to 250 on its own. It closes over the \<open>inputs\<close> and the
  \<open>foundStage\<close> of the click and updates whatever state it finds when the timer fires.
  On \<open>null\<close> it stores the message of line 247 and leaves \<open>results\<close> alone.
\<close>

definition calculationCallback ::
  "PayScale \<Rightarrow> SalaryInputs \<Rightarrow> int option \<Rightarrow> app_state \<Rightarrow> app_state" where
  "calculationCallback PAY_SCALE_2017 closedInputs closedStage st =
     (case calculateEnhancements PAY_SCALE_2017 closedInputs closedStage of
        Some calculated \<Rightarrow>
          st\<lparr>results := Some calculated, error := None, isLoading := False\<rparr>
      | None \<Rightarrow> st\<lparr>error := Some VerifyInputs, isLoading := False\<rparr>)"

section \<open>handleInputChange and the first render (lines 140 to 150, 197 to 217)\<close>








section \<open>Illustrative inputs\<close>

text \<open>
  Two small tables in the shape of the pay scales, some input records and two
  component states. The concrete instances of the theorems below are evaluated on
  them. Grade 16 has three stages in the 2022 table and two in the 2017
  table; the last two stages of grade 17 carry the same amount. The amounts are
  made up for the examples.
\<close>

definition exampleScale2017 :: PayScale where
  "exampleScale2017 = [15 \<mapsto> [16120, 17450, 18780], 16 \<mapsto> [18910, 20430]]"

definition exampleScale2022 :: PayScale where
  "exampleScale2022 = [16 \<mapsto> [28070, 30330, 32590], 17 \<mapsto> [45070, 48520, 48520]]"

definition exampleInputs :: SalaryInputs where
  "exampleInputs = \<lparr>bps = 16, wasPromoted = False, currentRunningBasicPay = 31000,
                      prePromotionBps = 15, prePromotionBasicPay2017 = 24100\<rparr>"

definition freshState :: "SalaryInputs \<Rightarrow> app_state" where
  "freshState i = \<lparr>inputs = i, results = None, isLoading = False, error = None,
                    foundStage = None\<rparr>"

text \<open>A state that still holds what an earlier run left behind.\<close>

definition staleState :: "SalaryInputs \<Rightarrow> app_state" where
  "staleState i = \<lparr>inputs = i, results = None, isLoading = True,
                    error = Some VerifyInputs, foundStage = Some 7\<rparr>"

definition zeroPayInputs :: SalaryInputs where
  "zeroPayInputs = \<lparr>bps = 16, wasPromoted = False, currentRunningBasicPay = 0,
                      prePromotionBps = 15, prePromotionBasicPay2017 = 24100\<rparr>"

definition lowPayInputs :: SalaryInputs where
  "lowPayInputs = \<lparr>bps = 16, wasPromoted = False, currentRunningBasicPay = 1000,
                     prePromotionBps = 15, prePromotionBasicPay2017 = 24100\<rparr>"

definition tiedPayInputs :: SalaryInputs where
  "tiedPayInputs = \<lparr>bps = 17, wasPromoted = False, currentRunningBasicPay = 48520,
                      prePromotionBps = 15, prePromotionBasicPay2017 = 24100\<rparr>"

definition topStageInputs :: SalaryInputs where
  "topStageInputs = \<lparr>bps = 16, wasPromoted = False, currentRunningBasicPay = 33000,
                       prePromotionBps = 15, prePromotionBasicPay2017 = 24100\<rparr>"

definition promotedInputs :: SalaryInputs where
  "promotedInputs = \<lparr>bps = 17, wasPromoted = True, currentRunningBasicPay = 51740,
                       prePromotionBps = 15, prePromotionBasicPay2017 = 24100\<rparr>"

definition promotedNoPayInputs :: SalaryInputs where
  "promotedNoPayInputs = \<lparr>bps = 17, wasPromoted = True, currentRunningBasicPay = 51740,
                            prePromotionBps = 15, prePromotionBasicPay2017 = 0\<rparr>"



definition promotedUnknownGradeInputs :: SalaryInputs where
  "promotedUnknownGradeInputs =
     \<lparr>bps = 17, wasPromoted = True, currentRunningBasicPay = 51740,
      prePromotionBps = 14, prePromotionBasicPay2017 = 24100\<rparr>"


section \<open>Rounding to a double\<close>

text \<open>
  Rounding to an integer is off by at most one half; \<open>binade\<close> brackets its argument
  between two consecutive powers of two; so at and above \<open>2^-1022\<close> the rounded value
  is within the relative distance \<open>2^-53\<close> of the exact one.
\<close>

lemma roundHalfEven_error: "\<bar>of_int (roundHalfEven x) - x\<bar> \<le> (1 / 2 :: rat)"
proof -
  have "of_int \<lfloor>x\<rfloor> \<le> x" "x < of_int \<lfloor>x\<rfloor> + 1" by linarith+
  then show ?thesis by (auto simp: roundHalfEven_def Let_def)
qed

lemma bitlen_powi:
  assumes "0 < m"
  shows "(2::rat) powi (bitlen m - 1) \<le> of_int m" and "of_int m < (2::rat) powi bitlen m"
proof -
  from assms have pos: "1 \<le> bitlen m" by (auto simp: bitlen_alt_def)
  from bitlen_bounds [OF assms]
  have lo: "2 ^ nat (bitlen m - 1) \<le> m" and hi: "m < 2 ^ nat (bitlen m)" by simp_all
  from lo have "(of_int (2 ^ nat (bitlen m - 1)) :: rat) \<le> of_int m"
    by (rule of_int_le_iff [THEN iffD2])
  with pos show "(2::rat) powi (bitlen m - 1) \<le> of_int m"
    by (simp add: power_int_def)
  from hi have "(of_int m :: rat) < of_int (2 ^ nat (bitlen m))"
    by (rule of_int_less_iff [THEN iffD2])
  with pos show "of_int m < (2::rat) powi bitlen m"
    by (simp add: power_int_def)
qed

lemma powi_minus_bounds:
  fixes x :: rat
  shows "1 \<le> x * 2 powi k \<Longrightarrow> 2 powi (- k) \<le> x"
    and "x * 2 powi k < 1 \<Longrightarrow> x < 2 powi (- k)"
proof -
  have p: "(0::rat) < 2 powi k" by simp
  have m: "(2::rat) powi (- k) = inverse (2 powi k)" by (rule power_int_minus)
  show "1 \<le> x * 2 powi k \<Longrightarrow> 2 powi (- k) \<le> x"
    unfolding m using p by (simp add: field_simps)
  show "x * 2 powi k < 1 \<Longrightarrow> x < 2 powi (- k)"
    unfolding m using p by (simp add: field_simps)
qed

lemma binade_bounds:
  assumes "0 < x"
  shows "2 powi binade x \<le> x" and "x < 2 powi (binade x + 1)"
proof -
  have "2 powi binade x \<le> x \<and> x < 2 powi (binade x + 1)"
  proof (cases "1 \<le> x")
    case True
    then have n: "0 < \<lfloor>x\<rfloor>" by linarith
    have e: "binade x = bitlen \<lfloor>x\<rfloor> - 1" using True by (simp add: binade_def)
    have fl: "of_int \<lfloor>x\<rfloor> \<le> x" and lt: "x < of_int (\<lfloor>x\<rfloor> + 1)" by linarith+
    from bitlen_powi(1) [OF n] have lo: "(2::rat) powi (bitlen \<lfloor>x\<rfloor> - 1) \<le> of_int \<lfloor>x\<rfloor>" .
    have hi: "(of_int (\<lfloor>x\<rfloor> + 1) :: rat) \<le> 2 powi bitlen \<lfloor>x\<rfloor>"
    proof -
      from n have "1 \<le> bitlen \<lfloor>x\<rfloor>" by (auto simp: bitlen_alt_def)
      moreover from bitlen_bounds [OF n] have "\<lfloor>x\<rfloor> + 1 \<le> 2 ^ nat (bitlen \<lfloor>x\<rfloor>)" by simp
      then have "(of_int (\<lfloor>x\<rfloor> + 1) :: rat) \<le> of_int (2 ^ nat (bitlen \<lfloor>x\<rfloor>))"
        by (rule of_int_le_iff [THEN iffD2])
      ultimately show ?thesis by (simp add: power_int_def)
    qed
    from lo fl have "2 powi (bitlen \<lfloor>x\<rfloor> - 1) \<le> x" by (rule order_trans)
    moreover from lt hi have "x < 2 powi bitlen \<lfloor>x\<rfloor>" by (rule less_le_trans)
    ultimately show ?thesis by (simp add: e)
  next
    case False
    let ?y = "1 / x" and ?m = "\<lceil>1 / x\<rceil> - 1"
    from False assms have y: "1 < ?y" by simp
    then have m: "0 < ?m" by linarith
    have e: "binade x = - bitlen ?m" using False by (simp add: binade_def)
    have my: "of_int ?m < ?y" "?y \<le> of_int (?m + 1)" by linarith+
    from bitlen_powi [OF m]
    have lo: "(2::rat) powi (bitlen ?m - 1) \<le> of_int ?m"
      and hi: "(of_int ?m :: rat) < 2 powi bitlen ?m" by simp_all
    have hi': "(of_int (?m + 1) :: rat) \<le> 2 powi bitlen ?m"
    proof -
      from m have "1 \<le> bitlen ?m" by (auto simp: bitlen_alt_def)
      moreover from bitlen_bounds [OF m] have "?m + 1 \<le> 2 ^ nat (bitlen ?m)" by simp
      then have "(of_int (?m + 1) :: rat) \<le> of_int (2 ^ nat (bitlen ?m))"
        by (rule of_int_le_iff [THEN iffD2])
      ultimately show ?thesis by (simp add: power_int_def)
    qed
    have p1: "(0::rat) < 2 powi bitlen ?m" "(0::rat) < 2 powi (bitlen ?m - 1)" by simp_all
    from my(2) hi' have "?y \<le> 2 powi bitlen ?m" by (rule order_trans)
    with assms p1 have "1 \<le> x * 2 powi bitlen ?m" by (simp add: field_simps)
    then have a: "2 powi (- bitlen ?m) \<le> x" by (rule powi_minus_bounds(1))
    from lo my(1) have "2 powi (bitlen ?m - 1) < ?y" by (rule le_less_trans)
    with assms p1 have "x * 2 powi (bitlen ?m - 1) < 1" by (simp add: field_simps)
    then have "x < 2 powi (- (bitlen ?m - 1))" by (rule powi_minus_bounds(2))
    moreover have "- (bitlen ?m - 1) = - bitlen ?m + 1" by simp
    ultimately have b: "x < 2 powi (- bitlen ?m + 1)" by simp
    from a b show ?thesis by (simp add: e)
  qed
  then show "2 powi binade x \<le> x" and "x < 2 powi (binade x + 1)" by simp_all
qed

lemma round64_error:
  assumes "2 powi (- 1022) \<le> x"
  shows "\<bar>round64 x - x\<bar> \<le> x / 2 ^ 53"
proof -
  have "(0::rat) < 2 powi (- 1022)" by simp
  with assms have pos: "0 < x" by linarith
  let ?e = "binade x"
  from binade_bounds [OF pos] have lo: "2 powi ?e \<le> x" and hi: "x < 2 powi (?e + 1)" by simp_all
  have ge: "- 1022 \<le> ?e"
  proof (rule ccontr)
    assume "\<not> - 1022 \<le> ?e"
    then have "?e + 1 \<le> - 1022" by simp
    then have "(2::rat) powi (?e + 1) \<le> 2 powi (- 1022)" by (intro power_int_increasing) simp_all
    with hi assms show False by linarith
  qed
  let ?q = "(2::rat) powi (?e - 52)"
  have q: "0 < ?q" by simp
  from pos ge have r: "round64 x = of_int (roundHalfEven (x / ?q)) * ?q"
    by (simp add: round64_def Let_def max_def)
  have "\<bar>round64 x - x\<bar> = \<bar>of_int (roundHalfEven (x / ?q)) - x / ?q\<bar> * ?q"
  proof -
    have "round64 x - x = (of_int (roundHalfEven (x / ?q)) - x / ?q) * ?q"
      using q by (simp add: r field_simps)
    then show ?thesis using q by (simp add: abs_mult)
  qed
  also have "\<dots> \<le> (1 / 2) * ?q"
    using roundHalfEven_error [of "x / ?q"] q by (intro mult_right_mono) simp_all
  also have "(1 / 2) * ?q = 2 powi ?e / 2 ^ 53"
  proof -
    have "(2::rat) powi (?e - 52) = 2 powi ?e * 2 powi (- 52)"
      by (simp add: power_int_diff power_int_minus field_simps)
    then show ?thesis by (simp add: power_int_minus)
  qed
  also have "\<dots> \<le> x / 2 ^ 53" using lo by (simp add: divide_right_mono)
  finally show ?thesis .
qed

text \<open>
  The two literals as doubles, and the distance of each amount of lines 48 to 50 from
  the exact product or sum, for amounts of at least one currency unit.
\<close>

lemma literal_030: "round64 0.30 = 5404319552844595 / 18014398509481984"
  by code_simp

lemma literal_010: "round64 0.10 = 3602879701896397 / 36028797018963968"
  by code_simp

lemma normal_quarter: "(2::rat) powi (- 1022) \<le> 1 / 16"
proof -
  have "(2::rat) powi (- 1022) \<le> 2 powi (- 4)" by (intro power_int_increasing) simp_all
  also have "(2::rat) powi (- 4) = 1 / 16" by (simp add: power_int_minus)
  finally show ?thesis .
qed

lemma times64_constant:
  assumes "1 \<le> b" and "1 / 16 \<le> k"
    and "k / 2 ^ 53 + \<bar>c - k\<bar> \<le> c / 10 ^ 15"
  shows "\<bar>times64 b k - b * c\<bar> \<le> b * c / 10 ^ 15"
proof -
  from assms(1,2) have "1 * (1 / 16) \<le> b * k" by (intro mult_mono) simp_all
  with normal_quarter have "2 powi (- 1022) \<le> b * k" by simp
  from round64_error [OF this] have one: "\<bar>times64 b k - b * k\<bar> \<le> b * k / 2 ^ 53"
    by (simp add: times64_def)
  have two: "\<bar>b * k - b * c\<bar> = b * \<bar>c - k\<bar>"
  proof -
    have "b * k - b * c = b * (k - c)" by (simp add: algebra_simps)
    then have "\<bar>b * k - b * c\<bar> = \<bar>b\<bar> * \<bar>k - c\<bar>" by (simp add: abs_mult)
    with assms(1) show ?thesis by (simp add: abs_minus_commute)
  qed
  have "\<bar>times64 b k - b * c\<bar> \<le> \<bar>times64 b k - b * k\<bar> + \<bar>b * k - b * c\<bar>" by linarith
  with one two have "\<bar>times64 b k - b * c\<bar> \<le> b * k / 2 ^ 53 + b * \<bar>c - k\<bar>" by linarith
  also have "\<dots> = b * (k / 2 ^ 53 + \<bar>c - k\<bar>)" by (simp add: algebra_simps)
  also from assms(1,3) have "\<dots> \<le> b * (c / 10 ^ 15)" by (intro mult_left_mono) simp_all
  finally show ?thesis by simp
qed

lemma dra_close:
  assumes "1 \<le> b"
  shows "\<bar>times64 b (round64 0.30) - b * 0.30\<bar> \<le> b * 0.30 / 10 ^ 15"
  unfolding literal_030 by (rule times64_constant [OF assms]) simp_all

lemma increase_close:
  assumes "1 \<le> c"
  shows "\<bar>times64 c (round64 0.10) - c * 0.10\<bar> \<le> c * 0.10 / 10 ^ 15"
  unfolding literal_010 by (rule times64_constant [OF assms]) simp_all

lemma total_close:
  assumes "1 \<le> b" and "1 \<le> c"
  shows "\<bar>plus64 (times64 b (round64 0.30)) (times64 c (round64 0.10)) - (b * 0.30 + c * 0.10)\<bar>
           \<le> (b * 0.30 + c * 0.10) / 10 ^ 9"
proof -
  define d where "d = times64 b (round64 0.30)"
  define r where "r = times64 c (round64 0.10)"
  define x where "x = b * 0.30"
  define y where "y = c * 0.10"
  from assms have x: "3 / 10 \<le> x" and y: "1 / 10 \<le> y" by (simp_all add: x_def y_def)
  from dra_close [OF assms(1)] have dx: "\<bar>d - x\<bar> \<le> x / 10 ^ 15" by (simp only: d_def x_def)
  from increase_close [OF assms(2)] have ry: "\<bar>r - y\<bar> \<le> y / 10 ^ 15"
    by (simp only: r_def y_def)
  define s where "s = x + y"
  from x y have s: "4 / 10 \<le> s" by (simp add: s_def)
  have split: "s / 10 ^ 15 = x / 10 ^ 15 + y / 10 ^ 15"
    unfolding s_def by (rule add_divide_distrib)
  from dx ry have "\<bar>d + r - (x + y)\<bar> \<le> x / 10 ^ 15 + y / 10 ^ 15" by linarith
  then have near: "\<bar>d + r - s\<bar> \<le> s / 10 ^ 15" by (simp only: split s_def [symmetric])
  then have up: "d + r \<le> s + s / 10 ^ 15" and low: "s - s / 10 ^ 15 \<le> d + r" by linarith+
  from s have "1 / 16 \<le> s - s / 10 ^ 15" by (simp add: field_simps)
  with low normal_quarter have "2 powi (- 1022) \<le> d + r" by linarith
  from round64_error [OF this]
  have "\<bar>plus64 d r - (d + r)\<bar> \<le> (d + r) / 2 ^ 53" by (simp add: plus64_def)
  also from up have "\<dots> \<le> (s + s / 10 ^ 15) / 2 ^ 53" by (rule divide_right_mono) simp
  finally have "\<bar>plus64 d r - (d + r)\<bar> \<le> (s + s / 10 ^ 15) / 2 ^ 53" .
  with near have "\<bar>plus64 d r - s\<bar> \<le> (s + s / 10 ^ 15) / 2 ^ 53 + s / 10 ^ 15" by linarith
  also from s have "\<dots> \<le> s / 10 ^ 9" by (simp add: field_simps)
  finally show ?thesis by (simp only: d_def r_def x_def y_def s_def)
qed

section \<open>The downward scan\<close>

text \<open>
  The scan returns \<open>-1\<close> or the highest index, at most its start, whose entry is at or
  below the pay.
\<close>

lemma scanLoop_spec:
  "- 1 \<le> i \<Longrightarrow>
   - 1 \<le> scanLoop xs pay i \<and> scanLoop xs pay i \<le> i \<and>
   (0 \<le> scanLoop xs pay i \<longrightarrow> xs ! nat (scanLoop xs pay i) \<le> pay) \<and>
   (\<forall>j. scanLoop xs pay i < j \<and> j \<le> i \<longrightarrow> pay < xs ! nat j)"
proof (induction xs pay i rule: scanLoop.induct)
  case (1 xs pay i)
  show ?case
  proof (cases "0 \<le> i")
    case nonneg: True
    show ?thesis
    proof (cases "xs ! nat i \<le> pay")
      case True
      with nonneg have "scanLoop xs pay i = i" by (simp add: scanLoop.simps)
      with True nonneg show ?thesis by simp
    next
      case False
      with nonneg have eq: "scanLoop xs pay i = scanLoop xs pay (i - 1)"
        by (simp add: scanLoop.simps)
      from nonneg have "- 1 \<le> i - 1" by simp
      from "1.IH" [OF nonneg _ this] False
      have ih: "- 1 \<le> scanLoop xs pay (i - 1)" "scanLoop xs pay (i - 1) \<le> i - 1"
        "0 \<le> scanLoop xs pay (i - 1) \<longrightarrow> xs ! nat (scanLoop xs pay (i - 1)) \<le> pay"
        "\<forall>j. scanLoop xs pay (i - 1) < j \<and> j \<le> i - 1 \<longrightarrow> pay < xs ! nat j"
        by auto
      have "\<forall>j. scanLoop xs pay (i - 1) < j \<and> j \<le> i \<longrightarrow> pay < xs ! nat j"
      proof (intro allI impI)
        fix j assume j: "scanLoop xs pay (i - 1) < j \<and> j \<le> i"
        show "pay < xs ! nat j"
        proof (cases "j = i")
          case True
          with False show ?thesis by simp
        next
          case False
          with j have "j \<le> i - 1" by simp
          with j ih(4) show ?thesis by blast
        qed
      qed
      with ih eq show ?thesis by simp
    qed
  next
    case False
    then have "scanLoop xs pay i = - 1" by (simp add: scanLoop.simps)
    with False "1.prems" show ?thesis by auto
  qed
qed

lemma scanLoop_finds:
  assumes "xs \<noteq> []" and "xs ! 0 \<le> pay"
  shows "0 \<le> scanLoop xs pay (int (length xs) - 1)"
proof (rule ccontr)
  assume "\<not> 0 \<le> scanLoop xs pay (int (length xs) - 1)"
  then have neg: "scanLoop xs pay (int (length xs) - 1) < 0" by simp
  from assms(1) have len: "0 \<le> int (length xs) - 1" by (cases xs) simp_all
  then have "- 1 \<le> int (length xs) - 1" by simp
  from scanLoop_spec [OF this, of xs pay] neg len
  have "pay < xs ! nat 0" by force
  with assms(2) show False by simp
qed

lemma scanLoop_empty: "scanLoop [] pay (int (length ([]::rat list)) - 1) = - 1"
  by (simp add: scanLoop.simps)

text \<open>What the effect stores when the below-minimum check has passed.\<close>

lemma stageEffect_found:
  assumes "\<not> wasPromoted (inputs st)"
    and "0 < currentRunningBasicPay (inputs st)" and "0 < bps (inputs st)"
    and "PAY_SCALE_2022 (bps (inputs st)) = Some xs"
    and "xs \<noteq> []" and "xs ! 0 \<le> currentRunningBasicPay (inputs st)"
  shows "stageEffect PAY_SCALE_2022 st =
           st\<lparr>error := None,
              foundStage := Some (scanLoop xs (currentRunningBasicPay (inputs st))
                                    (int (length xs) - 1))\<rparr>"
proof -
  from scanLoop_finds [OF assms(5,6)]
  have "scanLoop xs (currentRunningBasicPay (inputs st)) (int (length xs) - 1) \<noteq> - 1"
    by simp
  with assms show ?thesis
    by (simp add: stageEffect_def Let_def)
qed

section \<open>Stage resolution\<close>

text \<open>
  C1. For a non-promoted input with a positive grade known to the current-period table
  and a valid (strictly positive) current pay at or above the grade's stage-0 amount,
  the effect stores a stage \<open>s\<close> and no message, with
  \<open>table[grade][s] \<le> currentPay\<close>, and \<open>s\<close> is the last index or
  \<open>table[grade][s+1] > currentPay\<close>; every entry above \<open>s\<close> exceeds the pay, so \<open>s\<close>
  is the first hit of the scan from the top. No order of the entries is needed.
\<close>

theorem stage_floor:
  assumes "\<not> wasPromoted (inputs st)"
    and "0 < currentRunningBasicPay (inputs st)" and "0 < bps (inputs st)"
    and "PAY_SCALE_2022 (bps (inputs st)) = Some xs"
    and "xs \<noteq> []" and "xs ! 0 \<le> currentRunningBasicPay (inputs st)"
  shows "\<exists>s. foundStage (stageEffect PAY_SCALE_2022 st) = Some s \<and>
             error (stageEffect PAY_SCALE_2022 st) = None \<and>
             0 \<le> s \<and> s < int (length xs) \<and>
             xs ! nat s \<le> currentRunningBasicPay (inputs st) \<and>
             (s = int (length xs) - 1 \<or> currentRunningBasicPay (inputs st) < xs ! nat (s + 1)) \<and>
             (\<forall>j. s < j \<and> j < int (length xs) \<longrightarrow>
                  currentRunningBasicPay (inputs st) < xs ! nat j)"
proof -
  let ?pay = "currentRunningBasicPay (inputs st)"
  let ?s = "scanLoop xs ?pay (int (length xs) - 1)"
  from assms(5) have "- 1 \<le> int (length xs) - 1" by simp
  from scanLoop_spec [OF this, of xs ?pay]
  have le: "?s \<le> int (length xs) - 1"
    and at: "0 \<le> ?s \<longrightarrow> xs ! nat ?s \<le> ?pay"
    and above: "\<forall>j. ?s < j \<and> j \<le> int (length xs) - 1 \<longrightarrow> ?pay < xs ! nat j"
    by blast+
  have nonneg: "0 \<le> ?s" by (rule scanLoop_finds [OF assms(5,6)])
  have st: "foundStage (stageEffect PAY_SCALE_2022 st) = Some ?s"
    "error (stageEffect PAY_SCALE_2022 st) = None"
    by (simp_all add: stageEffect_found [of st PAY_SCALE_2022 xs, OF assms])
  have next_above: "?s = int (length xs) - 1 \<or> ?pay < xs ! nat (?s + 1)"
  proof (cases "?s = int (length xs) - 1")
    case True
    then show ?thesis by simp
  next
    case False
    with le have "?s < ?s + 1 \<and> ?s + 1 \<le> int (length xs) - 1" by simp
    with above show ?thesis by blast
  qed
  have all_above: "\<forall>j. ?s < j \<and> j < int (length xs) \<longrightarrow> ?pay < xs ! nat j"
    using above by simp
  from st nonneg le at next_above all_above show ?thesis by simp
qed

theorem stage_floor_witness:
  "\<not> wasPromoted (inputs (freshState exampleInputs)) \<and>
   0 < currentRunningBasicPay (inputs (freshState exampleInputs)) \<and>
   0 < bps (inputs (freshState exampleInputs)) \<and>
   exampleScale2022 (bps (inputs (freshState exampleInputs))) = Some [28070, 30330, 32590] \<and>
   [28070, 30330, 32590 :: rat] ! 0 \<le> currentRunningBasicPay (inputs (freshState exampleInputs)) \<and>
   foundStage (stageEffect exampleScale2022 (freshState exampleInputs)) = Some 1"
proof -
  have h: "\<not> wasPromoted (inputs (freshState exampleInputs))"
    "0 < currentRunningBasicPay (inputs (freshState exampleInputs))"
    "0 < bps (inputs (freshState exampleInputs))"
    "exampleScale2022 (bps (inputs (freshState exampleInputs))) = Some [28070, 30330, 32590]"
    "[28070, 30330, 32590 :: rat] \<noteq> []"
    "[28070, 30330, 32590 :: rat] ! 0 \<le> currentRunningBasicPay (inputs (freshState exampleInputs))"
    by (simp_all add: freshState_def exampleInputs_def exampleScale2022_def)
  from stage_floor [of "freshState exampleInputs" exampleScale2022, OF h] obtain s where
    s: "foundStage (stageEffect exampleScale2022 (freshState exampleInputs)) = Some s"
      "0 \<le> s" "s < 3" "[28070, 30330, 32590 :: rat] ! nat s \<le> 31000"
      "s = 2 \<or> (31000::rat) < [28070, 30330, 32590] ! nat (s + 1)"
    by (auto simp: freshState_def exampleInputs_def)
  from s(2,3) have "s = 0 \<or> s = 1 \<or> s = 2" by auto
  with s(4,5) have "s = 1" by auto
  with s(1) h show ?thesis by simp
qed

text \<open>
  C7. When the grade's entries are non-decreasing and the pay is at or above the
  stage-0 entry, the scan ends on an index, never on \<open>-1\<close>, and the effect never
  stores the fallback message of line 191. The order of the entries is assumed as the
  claim states it; the proof rests on the stage-0 entry alone. An empty sequence has
  no stage-0 entry and does reach the fallback (\<open>scanLoop_empty\<close>).
\<close>

theorem scan_always_finds:
  assumes "PAY_SCALE_2022 (bps (inputs st)) = Some xs"
    and "sorted xs"
    and "xs \<noteq> []" and "xs ! 0 \<le> currentRunningBasicPay (inputs st)"
  shows "scanLoop xs (currentRunningBasicPay (inputs st)) (int (length xs) - 1) \<noteq> - 1 \<and>
         error (stageEffect PAY_SCALE_2022 st) \<noteq> Some CouldNotDetermineStage"
proof -
  from scanLoop_finds [OF assms(3,4)]
  have found: "scanLoop xs (currentRunningBasicPay (inputs st)) (int (length xs) - 1) \<noteq> - 1"
    by simp
  with assms(1,3,4) have "error (stageEffect PAY_SCALE_2022 st) \<noteq> Some CouldNotDetermineStage"
    by (simp add: stageEffect_def Let_def)
  with found show ?thesis by simp
qed

theorem scan_always_finds_witness:
  "exampleScale2022 (bps (inputs (freshState exampleInputs))) = Some [28070, 30330, 32590] \<and>
   sorted [28070, 30330, 32590 :: rat] \<and>
   [28070, 30330, 32590 :: rat] ! 0 \<le> currentRunningBasicPay (inputs (freshState exampleInputs)) \<and>
   scanLoop [28070, 30330, 32590] (currentRunningBasicPay (inputs (freshState exampleInputs)))
     (int (length [28070, 30330, 32590 :: rat]) - 1) \<noteq> - 1 \<and>
   error (stageEffect exampleScale2022 (freshState exampleInputs)) \<noteq> Some CouldNotDetermineStage"
proof -
  have h: "exampleScale2022 (bps (inputs (freshState exampleInputs))) = Some [28070, 30330, 32590]"
    "sorted [28070, 30330, 32590 :: rat]"
    "[28070, 30330, 32590 :: rat] \<noteq> []"
    "[28070, 30330, 32590 :: rat] ! 0 \<le> currentRunningBasicPay (inputs (freshState exampleInputs))"
    by (simp_all add: freshState_def exampleInputs_def exampleScale2022_def)
  with scan_always_finds [of exampleScale2022 "freshState exampleInputs", OF h]
  show ?thesis by simp
qed

text \<open>
  C5 as stated fails at a pay of zero, which is what the form stores for an empty
  field: the pay is below the stage-0 entry of grade 16, and the guard of line 160
  sends the effect to its last branch, which stores no stage and no message.
\<close>

theorem below_minimum_counterexample:
  "exampleScale2022 (bps (inputs (freshState zeroPayInputs))) = Some [28070, 30330, 32590] \<and>
   currentRunningBasicPay (inputs (freshState zeroPayInputs)) < [28070, 30330, 32590] ! 0 \<and>
   foundStage (stageEffect exampleScale2022 (freshState zeroPayInputs)) = None \<and>
   error (stageEffect exampleScale2022 (freshState zeroPayInputs)) = None \<and>
   error (stageEffect exampleScale2022 (freshState zeroPayInputs)) \<noteq>
     Some (MustBeAtLeast 16 28070)"
  by (simp add: stageEffect_def freshState_def zeroPayInputs_def exampleScale2022_def)

text \<open>
  C5, amended. For a non-promoted input with a positive grade known to the
  current-period table and a pay strictly below the grade's stage-0 entry, the effect
  stores no stage. When the pay is strictly positive it stores the below-minimum
  message built from the grade and that exact stage-0 entry; when the pay is zero or
  negative it stores no message.
\<close>

theorem below_minimum:
  assumes "\<not> wasPromoted (inputs st)" and "0 < bps (inputs st)"
    and "PAY_SCALE_2022 (bps (inputs st)) = Some xs"
    and "xs \<noteq> []" and "currentRunningBasicPay (inputs st) < xs ! 0"
  shows "foundStage (stageEffect PAY_SCALE_2022 st) = None \<and>
         error (stageEffect PAY_SCALE_2022 st) =
           (if 0 < currentRunningBasicPay (inputs st)
            then Some (MustBeAtLeast (bps (inputs st)) (xs ! 0)) else None)"
  using assms by (simp add: stageEffect_def Let_def)

theorem below_minimum_witness:
  "\<not> wasPromoted (inputs (freshState lowPayInputs)) \<and>
   0 < bps (inputs (freshState lowPayInputs)) \<and>
   exampleScale2022 (bps (inputs (freshState lowPayInputs))) = Some [28070, 30330, 32590] \<and>
   currentRunningBasicPay (inputs (freshState lowPayInputs)) < [28070, 30330, 32590] ! 0 \<and>
   foundStage (stageEffect exampleScale2022 (freshState lowPayInputs)) = None \<and>
   error (stageEffect exampleScale2022 (freshState lowPayInputs)) = Some (MustBeAtLeast 16 28070)"
proof -
  have h: "\<not> wasPromoted (inputs (freshState lowPayInputs))"
    "0 < bps (inputs (freshState lowPayInputs))"
    "exampleScale2022 (bps (inputs (freshState lowPayInputs))) = Some [28070, 30330, 32590]"
    "[28070, 30330, 32590 :: rat] \<noteq> []"
    "currentRunningBasicPay (inputs (freshState lowPayInputs)) < [28070, 30330, 32590] ! 0"
    by (simp_all add: freshState_def lowPayInputs_def exampleScale2022_def)
  from below_minimum [of "freshState lowPayInputs" exampleScale2022, OF h] h
  show ?thesis by (simp add: freshState_def lowPayInputs_def)
qed

text \<open>
  C8 as stated fails where two stages carry the same amount, which a non-decreasing
  sequence may: a pay equal to the entry at stage 1 of grade 17 resolves to stage 2,
  the first hit of the scan from the top.
\<close>

theorem exact_match_counterexample:
  "exampleScale2022 (bps (inputs (freshState tiedPayInputs))) = Some [45070, 48520, 48520] \<and>
   sorted [45070, 48520, 48520 :: rat] \<and>
   currentRunningBasicPay (inputs (freshState tiedPayInputs)) = [45070, 48520, 48520] ! 1 \<and>
   foundStage (stageEffect exampleScale2022 (freshState tiedPayInputs)) = Some 2 \<and>
   foundStage (stageEffect exampleScale2022 (freshState tiedPayInputs)) \<noteq> Some 1"
  by (simp add: stageEffect_def freshState_def tiedPayInputs_def exampleScale2022_def
      scanLoop.simps)

text \<open>
  C8, amended. For a non-promoted input with a positive grade known to the
  current-period table, whose sequence is non-decreasing, and a stage index \<open>i\<close> whose
  entry is strictly positive, a pay exactly equal to the entry at stage \<open>i\<close> resolves,
  with no message, to the highest stage that carries that same amount, never to a stage
  below \<open>i\<close>; it is stage \<open>i\<close> itself when the amount is not repeated at a later stage.
\<close>

theorem exact_match:
  assumes "\<not> wasPromoted (inputs st)"
    and "0 < currentRunningBasicPay (inputs st)" and "0 < bps (inputs st)"
    and "PAY_SCALE_2022 (bps (inputs st)) = Some xs"
    and "sorted xs"
    and "i < length xs" and "currentRunningBasicPay (inputs st) = xs ! i"
  shows "\<exists>s. foundStage (stageEffect PAY_SCALE_2022 st) = Some s \<and>
             error (stageEffect PAY_SCALE_2022 st) = None \<and>
             int i \<le> s \<and> s < int (length xs) \<and> xs ! nat s = xs ! i \<and>
             (\<forall>j. s < j \<and> j < int (length xs) \<longrightarrow> xs ! i < xs ! nat j) \<and>
             (xs ! i \<notin> set (drop (Suc i) xs) \<longrightarrow> s = int i)"
proof -
  let ?pay = "currentRunningBasicPay (inputs st)"
  let ?s = "scanLoop xs ?pay (int (length xs) - 1)"
  from assms(6) have ne: "xs \<noteq> []" by auto
  from assms(5,6) have "xs ! 0 \<le> xs ! i" by (simp add: sorted_iff_nth_mono)
  with assms(7) have min: "xs ! 0 \<le> ?pay" by simp
  note eff = stageEffect_found [of st PAY_SCALE_2022 xs, OF assms(1-4) ne min]
  from ne have "- 1 \<le> int (length xs) - 1" by simp
  from scanLoop_spec [OF this, of xs ?pay]
  have le: "?s \<le> int (length xs) - 1"
    and at: "0 \<le> ?s \<longrightarrow> xs ! nat ?s \<le> ?pay"
    and above: "\<forall>j. ?s < j \<and> j \<le> int (length xs) - 1 \<longrightarrow> ?pay < xs ! nat j"
    by blast+
  have nonneg: "0 \<le> ?s" by (rule scanLoop_finds [OF ne min])
  have "\<not> ?s < int i"
  proof
    assume "?s < int i"
    moreover from assms(6) have "int i \<le> int (length xs) - 1" by simp
    ultimately have "?pay < xs ! nat (int i)" using above by blast
    with assms(7) show False by simp
  qed
  then have ge: "int i \<le> ?s" by simp
  with le have idx: "i \<le> nat ?s" "nat ?s < length xs" by auto
  with assms(5) have "xs ! i \<le> xs ! nat ?s" by (simp add: sorted_iff_nth_mono)
  moreover from at nonneg assms(7) have "xs ! nat ?s \<le> xs ! i" by simp
  ultimately have same: "xs ! nat ?s = xs ! i" by simp
  from above assms(7)
  have higher: "\<forall>j. ?s < j \<and> j < int (length xs) \<longrightarrow> xs ! i < xs ! nat j" by simp
  have single: "xs ! i \<notin> set (drop (Suc i) xs) \<longrightarrow> ?s = int i"
  proof
    assume once: "xs ! i \<notin> set (drop (Suc i) xs)"
    show "?s = int i"
    proof (rule ccontr)
      assume "?s \<noteq> int i"
      with ge have lt: "i < nat ?s" by simp
      with idx(2) have "drop (Suc i) xs ! (nat ?s - Suc i) = xs ! nat ?s" by simp
      moreover from lt idx(2) have "nat ?s - Suc i < length (drop (Suc i) xs)" by auto
      ultimately have "xs ! nat ?s \<in> set (drop (Suc i) xs)" by (metis nth_mem)
      with same once show False by simp
    qed
  qed
  from eff ge le same higher single show ?thesis by simp
qed

theorem exact_match_witness:
  "\<not> wasPromoted (inputs (freshState tiedPayInputs)) \<and>
   0 < currentRunningBasicPay (inputs (freshState tiedPayInputs)) \<and>
   0 < bps (inputs (freshState tiedPayInputs)) \<and>
   exampleScale2022 (bps (inputs (freshState tiedPayInputs))) = Some [45070, 48520, 48520] \<and>
   sorted [45070, 48520, 48520 :: rat] \<and>
   2 < length [45070, 48520, 48520 :: rat] \<and>
   currentRunningBasicPay (inputs (freshState tiedPayInputs)) = [45070, 48520, 48520] ! 2 \<and>
   [45070, 48520, 48520 :: rat] ! 2 \<notin> set (drop (Suc 2) [45070, 48520, 48520]) \<and>
   foundStage (stageEffect exampleScale2022 (freshState tiedPayInputs)) = Some 2 \<and>
   error (stageEffect exampleScale2022 (freshState tiedPayInputs)) = None"
proof -
  have h: "\<not> wasPromoted (inputs (freshState tiedPayInputs))"
    "0 < currentRunningBasicPay (inputs (freshState tiedPayInputs))"
    "0 < bps (inputs (freshState tiedPayInputs))"
    "exampleScale2022 (bps (inputs (freshState tiedPayInputs))) = Some [45070, 48520, 48520]"
    "sorted [45070, 48520, 48520 :: rat]"
    "2 < length [45070, 48520, 48520 :: rat]"
    "currentRunningBasicPay (inputs (freshState tiedPayInputs)) = [45070, 48520, 48520] ! 2"
    by (simp_all add: freshState_def tiedPayInputs_def exampleScale2022_def)
  have once: "[45070, 48520, 48520 :: rat] ! 2 \<notin> set (drop (Suc 2) [45070, 48520, 48520])"
    by simp
  from exact_match [of "freshState tiedPayInputs" exampleScale2022, OF h] once
  have "foundStage (stageEffect exampleScale2022 (freshState tiedPayInputs)) = Some 2"
    "error (stageEffect exampleScale2022 (freshState tiedPayInputs)) = None"
    by auto
  with h once show ?thesis by simp
qed

section \<open>The calculation\<close>

text \<open>
  The amounts of the examples, evaluated with the rounding of doubles.
\<close>

lemma enhance_examples:
  "enhance 24100 51740 =
     Some \<lparr>basic2017 = 24100, dra = 7230, runningPayIncrease = 5174,
           totalIncrease = 12404, currentBasicPay = 51740\<rparr>"
  "enhance 24100 47700 =
     Some \<lparr>basic2017 = 24100, dra = 7230, runningPayIncrease = 4770,
           totalIncrease = 12000, currentBasicPay = 47700\<rparr>"
  "enhance 20430 31000 =
     Some \<lparr>basic2017 = 20430, dra = 6129, runningPayIncrease = 3100,
           totalIncrease = 9229, currentBasicPay = 31000\<rparr>"
  by code_simp+

text \<open>
  C2 as stated fails, because the amounts are doubles. For a baseline pay and a current
  pay of 3 the allowance is \<open>0.8999999999999999\<close>, not \<open>3 * 0.30\<close>, and the increase is
  \<open>0.30000000000000004\<close>, not \<open>3 * 0.10\<close>; for a baseline pay and a current pay of 1 the
  total, the double \<open>0.4\<close>, is not the sum of the allowance and the increase of the same
  record.
\<close>

theorem enhancement_amounts_counterexample:
  "enhance 3 3 =
     Some \<lparr>basic2017 = 3, dra = 2026619832316723 / 2251799813685248,
           runningPayIncrease = 1351079888211149 / 4503599627370496,
           totalIncrease = 5404319552844595 / 4503599627370496, currentBasicPay = 3\<rparr> \<and>
   (2026619832316723 / 2251799813685248 :: rat) \<noteq> 3 * 0.30 \<and>
   (1351079888211149 / 4503599627370496 :: rat) \<noteq> 3 * 0.10 \<and>
   enhance 1 1 =
     Some \<lparr>basic2017 = 1, dra = 5404319552844595 / 18014398509481984,
           runningPayIncrease = 3602879701896397 / 36028797018963968,
           totalIncrease = 3602879701896397 / 9007199254740992, currentBasicPay = 1\<rparr> \<and>
   (3602879701896397 / 9007199254740992 :: rat) \<noteq>
     5404319552844595 / 18014398509481984 + 3602879701896397 / 36028797018963968"
proof -
  have "enhance 3 3 =
     Some \<lparr>basic2017 = 3, dra = 2026619832316723 / 2251799813685248,
           runningPayIncrease = 1351079888211149 / 4503599627370496,
           totalIncrease = 5404319552844595 / 4503599627370496, currentBasicPay = 3\<rparr>"
    by code_simp
  moreover have "enhance 1 1 =
     Some \<lparr>basic2017 = 1, dra = 5404319552844595 / 18014398509481984,
           runningPayIncrease = 3602879701896397 / 36028797018963968,
           totalIncrease = 3602879701896397 / 9007199254740992, currentBasicPay = 1\<rparr>"
    by code_simp
  ultimately show ?thesis by simp
qed

text \<open>
  C2, amended. For every strictly positive baseline pay and current pay, lines 44 to 52
  return a record that carries the baseline pay and the current pay unchanged, whose
  allowance is the double nearest to the baseline pay times the double \<open>0.30\<close>, whose
  increase is the double nearest to the current pay times the double \<open>0.10\<close>, and whose
  total is the double nearest to the sum of these two; \<open>calculateEnhancements\<close> returns
  that record whenever lines 18 to 42 determined such a baseline. For amounts of at
  least one currency unit the allowance, the increase and the total are within the
  relative distance \<open>10^-9\<close> of the baseline pay times 0.30, of the current pay times
  0.10, and of the sum of these two exact products.
\<close>

theorem enhancement_amounts:
  assumes "0 < b" and "0 < c"
  shows "enhance b c =
           Some \<lparr>basic2017 = b, dra = times64 b (round64 0.30),
                 runningPayIncrease = times64 c (round64 0.10),
                 totalIncrease = plus64 (times64 b (round64 0.30)) (times64 c (round64 0.10)),
                 currentBasicPay = c\<rparr> \<and>
         (draBase PAY_SCALE_2017 i stage = Some b \<and> currentRunningBasicPay i = c \<longrightarrow>
            calculateEnhancements PAY_SCALE_2017 i stage = enhance b c) \<and>
         (1 \<le> b \<and> 1 \<le> c \<longrightarrow>
            \<bar>times64 b (round64 0.30) - b * 0.30\<bar> \<le> b * 0.30 / 10 ^ 9 \<and>
            \<bar>times64 c (round64 0.10) - c * 0.10\<bar> \<le> c * 0.10 / 10 ^ 9 \<and>
            \<bar>plus64 (times64 b (round64 0.30)) (times64 c (round64 0.10)) -
               (b * 0.30 + c * 0.10)\<bar> \<le> (b * 0.30 + c * 0.10) / 10 ^ 9)"
proof (intro conjI impI)
  from assms show "enhance b c =
           Some \<lparr>basic2017 = b, dra = times64 b (round64 0.30),
                 runningPayIncrease = times64 c (round64 0.10),
                 totalIncrease = plus64 (times64 b (round64 0.30)) (times64 c (round64 0.10)),
                 currentBasicPay = c\<rparr>"
    by (simp add: enhance_def Let_def)
next
  assume "draBase PAY_SCALE_2017 i stage = Some b \<and> currentRunningBasicPay i = c"
  then show "calculateEnhancements PAY_SCALE_2017 i stage = enhance b c"
    by (simp add: calculateEnhancements_def)
next
  assume big: "1 \<le> b \<and> 1 \<le> c"
  then have b: "1 \<le> b" and c: "1 \<le> c" by simp_all
  have coarser: "x / 10 ^ 15 \<le> x / 10 ^ 9" if "0 \<le> x" for x :: rat
    using that by (simp add: field_simps)
  from b have "b * 0.30 / 10 ^ 15 \<le> b * 0.30 / 10 ^ 9" by (intro coarser) simp
  with dra_close [OF b]
  show "\<bar>times64 b (round64 0.30) - b * 0.30\<bar> \<le> b * 0.30 / 10 ^ 9" by (rule order_trans)
  from c have "c * 0.10 / 10 ^ 15 \<le> c * 0.10 / 10 ^ 9" by (intro coarser) simp
  with increase_close [OF c]
  show "\<bar>times64 c (round64 0.10) - c * 0.10\<bar> \<le> c * 0.10 / 10 ^ 9" by (rule order_trans)
  from total_close [OF b c]
  show "\<bar>plus64 (times64 b (round64 0.30)) (times64 c (round64 0.10)) -
               (b * 0.30 + c * 0.10)\<bar> \<le> (b * 0.30 + c * 0.10) / 10 ^ 9" .
qed

theorem enhancement_amounts_witness:
  "(0::rat) < 24100 \<and> (0::rat) < 51740 \<and> (1::rat) \<le> 24100 \<and> (1::rat) \<le> 51740 \<and>
   draBase exampleScale2017 promotedInputs None = Some 24100 \<and>
   currentRunningBasicPay promotedInputs = 51740 \<and>
   calculateEnhancements exampleScale2017 promotedInputs None =
     Some \<lparr>basic2017 = 24100, dra = 7230, runningPayIncrease = 5174,
           totalIncrease = 12404, currentBasicPay = 51740\<rparr> \<and>
   times64 24100 (round64 0.30) = 7230 \<and>
   \<bar>times64 24100 (round64 0.30) - 24100 * 0.30\<bar> \<le> 24100 * 0.30 / 10 ^ 9"
proof -
  have h: "(0::rat) < 24100" "(0::rat) < 51740" by simp_all
  have big: "(1::rat) \<le> 24100 \<and> (1::rat) \<le> 51740" by simp
  have d: "draBase exampleScale2017 promotedInputs None = Some 24100 \<and>
    currentRunningBasicPay promotedInputs = 51740"
    by (simp add: draBase_def promotedInputs_def exampleScale2017_def)
  from enhancement_amounts [OF h, of exampleScale2017 promotedInputs None] big d
  have c: "calculateEnhancements exampleScale2017 promotedInputs None = enhance 24100 51740"
    and n: "\<bar>times64 24100 (round64 0.30) - 24100 * 0.30\<bar> \<le> 24100 * 0.30 / 10 ^ 9"
    by blast+
  from c enhance_examples(1)
  have v: "calculateEnhancements exampleScale2017 promotedInputs None =
     Some \<lparr>basic2017 = 24100, dra = 7230, runningPayIncrease = 5174,
           totalIncrease = 12404, currentBasicPay = 51740\<rparr>"
    by (rule trans)
  have t: "times64 24100 (round64 0.30) = 7230" by code_simp
  from h big d v t n show ?thesis by blast
qed

text \<open>
  What the callback stores when the calculation returns \<open>null\<close>, and the handler as a
  click followed at once by its callback.
\<close>

lemma calculationCallback_null:
  "calculateEnhancements PAY_SCALE_2017 i stage = None \<Longrightarrow>
   error (calculationCallback PAY_SCALE_2017 i stage st) = Some VerifyInputs \<and>
   results (calculationCallback PAY_SCALE_2017 i stage st) = results st"
  by (simp add: calculationCallback_def)

lemma handleCalculate_timer:
  assumes "error st = None"
    and "wasPromoted (inputs st) \<longrightarrow>
           0 < prePromotionBasicPay2017 (inputs st) \<and> 0 < currentRunningBasicPay (inputs st)"
    and "\<not> wasPromoted (inputs st) \<longrightarrow> foundStage st \<noteq> None"
  shows "handleCalculate PAY_SCALE_2017 st =
           calculationCallback PAY_SCALE_2017 (inputs st) (foundStage st)
             (st\<lparr>results := None, isLoading := True\<rparr>)"
  using assms
  by (auto simp: handleCalculate_def calculationCallback_def Let_def not_le split: option.splits)

text \<open>
  C3 as stated fails in the error it names. For a promoted input whose pre-promotion
  grade is missing from the historical table, \<open>calculateEnhancements\<close> returns the same
  \<open>null\<close> as for a known grade with a pay of zero, and the callback stores the same
  message as for a non-promoted input whose stage is out of range.
\<close>

theorem promoted_baseline_counterexample:
  "wasPromoted promotedUnknownGradeInputs \<and>
   exampleScale2017 (prePromotionBps promotedUnknownGradeInputs) = None \<and>
   exampleScale2017 (prePromotionBps promotedNoPayInputs) \<noteq> None \<and>
   calculateEnhancements exampleScale2017 promotedUnknownGradeInputs None = None \<and>
   calculateEnhancements exampleScale2017 promotedNoPayInputs None = None \<and>
   error (calculationCallback exampleScale2017 promotedUnknownGradeInputs None
            (freshState promotedUnknownGradeInputs)) = Some VerifyInputs \<and>
   error (calculationCallback exampleScale2017 topStageInputs (Some 2)
            (freshState topStageInputs)) = Some VerifyInputs"
  by (simp add: calculationCallback_def calculateEnhancements_def draBase_def enhance_def
      promotedUnknownGradeInputs_def promotedNoPayInputs_def topStageInputs_def
      exampleScale2017_def freshState_def)

text \<open>
  C3, amended. For every promoted input: when the historical table has no entry for the
  pre-promotion grade, the calculation fails at that check, before any pay is looked at,
  with the \<open>null\<close> that every failure of \<open>calculateEnhancements\<close> returns, and the
  callback reports it with the general message of line 247 and stores no result; when a
  pay is zero or negative, a click with no message stored reports that instead, with
  the message of line 227. Otherwise the baseline is the supplied pre-promotion pay
  itself, whatever the grade's sequence holds and whatever stage is passed, and the
  result is that of lines 44 to 52 on that baseline. The effect stores no stage for a
  promoted input.
\<close>

theorem promoted_baseline:
  assumes "wasPromoted i"
  shows "(PAY_SCALE_2017 (prePromotionBps i) = None \<longrightarrow>
            draBase PAY_SCALE_2017 i stage = None \<and>
            calculateEnhancements PAY_SCALE_2017 i stage = None \<and>
            error (calculationCallback PAY_SCALE_2017 i stage st) = Some VerifyInputs \<and>
            results (calculationCallback PAY_SCALE_2017 i stage st) = results st) \<and>
         (prePromotionBasicPay2017 i \<le> 0 \<or> currentRunningBasicPay i \<le> 0 \<longrightarrow>
            error (handleCalculate PAY_SCALE_2017 (st\<lparr>inputs := i, error := None\<rparr>)) =
              Some PromotedNeedsPositive) \<and>
         (PAY_SCALE_2017 (prePromotionBps i) \<noteq> None \<longrightarrow>
            draBase PAY_SCALE_2017 i stage = Some (prePromotionBasicPay2017 i) \<and>
            calculateEnhancements PAY_SCALE_2017 i stage =
              enhance (prePromotionBasicPay2017 i) (currentRunningBasicPay i)) \<and>
         foundStage (stageEffect PAY_SCALE_2022 (st\<lparr>inputs := i\<rparr>)) = None"
proof (intro conjI impI)
  assume missing: "PAY_SCALE_2017 (prePromotionBps i) = None"
  with assms show base: "draBase PAY_SCALE_2017 i stage = None"
    by (simp add: draBase_def)
  then show null: "calculateEnhancements PAY_SCALE_2017 i stage = None"
    by (simp add: calculateEnhancements_def)
  from calculationCallback_null [OF null]
  show "error (calculationCallback PAY_SCALE_2017 i stage st) = Some VerifyInputs"
    and "results (calculationCallback PAY_SCALE_2017 i stage st) = results st"
    by simp_all
next
  assume "prePromotionBasicPay2017 i \<le> 0 \<or> currentRunningBasicPay i \<le> 0"
  with assms
  show "error (handleCalculate PAY_SCALE_2017 (st\<lparr>inputs := i, error := None\<rparr>)) =
          Some PromotedNeedsPositive"
    by (auto simp: handleCalculate_def Let_def)
next
  assume known: "PAY_SCALE_2017 (prePromotionBps i) \<noteq> None"
  with assms show base: "draBase PAY_SCALE_2017 i stage = Some (prePromotionBasicPay2017 i)"
    by (auto simp: draBase_def)
  then show "calculateEnhancements PAY_SCALE_2017 i stage =
      enhance (prePromotionBasicPay2017 i) (currentRunningBasicPay i)"
    by (simp add: calculateEnhancements_def)
next
  from assms show "foundStage (stageEffect PAY_SCALE_2022 (st\<lparr>inputs := i\<rparr>)) = None"
    by (simp add: stageEffect_def)
qed

theorem promoted_baseline_witness:
  "wasPromoted promotedUnknownGradeInputs \<and> wasPromoted promotedInputs \<and>
   exampleScale2017 (prePromotionBps promotedUnknownGradeInputs) = None \<and>
   calculateEnhancements exampleScale2017 promotedUnknownGradeInputs (Some 1) = None \<and>
   error (calculationCallback exampleScale2017 promotedUnknownGradeInputs (Some 1)
            (freshState promotedUnknownGradeInputs)) = Some VerifyInputs \<and>
   exampleScale2017 (prePromotionBps promotedInputs) \<noteq> None \<and>
   draBase exampleScale2017 promotedInputs (Some 1) = Some 24100 \<and>
   calculateEnhancements exampleScale2017 promotedInputs (Some 1) = enhance 24100 51740"
proof -
  have h: "wasPromoted promotedUnknownGradeInputs" "wasPromoted promotedInputs"
    "exampleScale2017 (prePromotionBps promotedUnknownGradeInputs) = None"
    "exampleScale2017 (prePromotionBps promotedInputs) \<noteq> None"
    by (simp_all add: promotedUnknownGradeInputs_def promotedInputs_def exampleScale2017_def)
  from promoted_baseline [OF h(1), of exampleScale2017 "Some 1"
      "freshState promotedUnknownGradeInputs"]
    promoted_baseline [OF h(2), of exampleScale2017 "Some 1"] h
  show ?thesis by (simp add: promotedInputs_def)
qed

text \<open>
  C4 as stated fails in the error it names. For a non-promoted input whose resolved
  stage lies beyond the grade's historical sequence, \<open>calculateEnhancements\<close> returns
  the same \<open>null\<close> as for a stage in range with a pay of zero, and the callback stores
  the same message as for a promoted input with an unknown pre-promotion grade.
\<close>

theorem historical_lookup_counterexample:
  "\<not> wasPromoted topStageInputs \<and>
   exampleScale2017 (bps topStageInputs) = Some [18910, 20430] \<and>
   foundStage (stageEffect exampleScale2022 (freshState topStageInputs)) = Some 2 \<and>
   calculateEnhancements exampleScale2017 topStageInputs (Some 2) = None \<and>
   draBase exampleScale2017 zeroPayInputs (Some 0) = Some 18910 \<and>
   calculateEnhancements exampleScale2017 zeroPayInputs (Some 0) = None \<and>
   error (calculationCallback exampleScale2017 topStageInputs (Some 2)
            (freshState topStageInputs)) = Some VerifyInputs \<and>
   error (calculationCallback exampleScale2017 promotedUnknownGradeInputs None
            (freshState promotedUnknownGradeInputs)) = Some VerifyInputs"
  by (simp add: calculationCallback_def calculateEnhancements_def draBase_def enhance_def
      promotedUnknownGradeInputs_def zeroPayInputs_def topStageInputs_def
      exampleScale2017_def exampleScale2022_def freshState_def stageEffect_def scanLoop.simps)

text \<open>
  C4, amended. For every non-promoted input and resolved stage \<open>s\<close>: when the grade is
  absent from the historical table, or \<open>s\<close> is negative or not below the length of the
  grade's historical sequence, the calculation fails without reading out of range, with
  the \<open>null\<close> that every failure of \<open>calculateEnhancements\<close> returns, and the callback
  reports it with the general message of line 247 and stores no result; otherwise the
  baseline is the historical entry of the grade at position \<open>s\<close>, and the result is that
  of lines 44 to 52 on that baseline.
\<close>

theorem historical_lookup:
  assumes "\<not> wasPromoted i"
  shows "(PAY_SCALE_2017 (bps i) = None \<longrightarrow>
            draBase PAY_SCALE_2017 i (Some s) = None \<and>
            calculateEnhancements PAY_SCALE_2017 i (Some s) = None \<and>
            error (calculationCallback PAY_SCALE_2017 i (Some s) st) = Some VerifyInputs \<and>
            results (calculationCallback PAY_SCALE_2017 i (Some s) st) = results st) \<and>
         (\<forall>ys. PAY_SCALE_2017 (bps i) = Some ys \<and> (s < 0 \<or> int (length ys) \<le> s) \<longrightarrow>
            draBase PAY_SCALE_2017 i (Some s) = None \<and>
            calculateEnhancements PAY_SCALE_2017 i (Some s) = None \<and>
            error (calculationCallback PAY_SCALE_2017 i (Some s) st) = Some VerifyInputs \<and>
            results (calculationCallback PAY_SCALE_2017 i (Some s) st) = results st) \<and>
         (\<forall>ys. PAY_SCALE_2017 (bps i) = Some ys \<and> 0 \<le> s \<and> s < int (length ys) \<longrightarrow>
            draBase PAY_SCALE_2017 i (Some s) = Some (ys ! nat s) \<and>
            calculateEnhancements PAY_SCALE_2017 i (Some s) =
              enhance (ys ! nat s) (currentRunningBasicPay i))"
  using assms
  by (auto simp: calculateEnhancements_def draBase_def calculationCallback_def)

theorem historical_lookup_witness:
  "\<not> wasPromoted topStageInputs \<and> \<not> wasPromoted exampleInputs \<and>
   exampleScale2017 (bps topStageInputs) = Some [18910, 20430] \<and>
   foundStage (stageEffect exampleScale2022 (freshState topStageInputs)) = Some 2 \<and>
   calculateEnhancements exampleScale2017 topStageInputs (Some 2) = None \<and>
   error (calculationCallback exampleScale2017 topStageInputs (Some 2)
            (freshState topStageInputs)) = Some VerifyInputs \<and>
   exampleScale2017 (bps exampleInputs) = Some [18910, 20430] \<and>
   foundStage (stageEffect exampleScale2022 (freshState exampleInputs)) = Some 1 \<and>
   draBase exampleScale2017 exampleInputs (Some 1) = Some 20430 \<and>
   calculateEnhancements exampleScale2017 exampleInputs (Some 1) =
     Some \<lparr>basic2017 = 20430, dra = 6129, runningPayIncrease = 3100,
           totalIncrease = 9229, currentBasicPay = 31000\<rparr>"
proof -
  have h: "\<not> wasPromoted topStageInputs" "\<not> wasPromoted exampleInputs"
    "exampleScale2017 (bps topStageInputs) = Some [18910, 20430]"
    "exampleScale2017 (bps exampleInputs) = Some [18910, 20430]"
    by (simp_all add: topStageInputs_def exampleInputs_def exampleScale2017_def)
  have r: "foundStage (stageEffect exampleScale2022 (freshState topStageInputs)) = Some 2"
    "foundStage (stageEffect exampleScale2022 (freshState exampleInputs)) = Some 1"
    by (simp_all add: stageEffect_def freshState_def topStageInputs_def exampleInputs_def
        exampleScale2022_def scanLoop.simps)
  from historical_lookup [OF h(1), of exampleScale2017 2 "freshState topStageInputs"]
    historical_lookup [OF h(2), of exampleScale2017 1] h r
  show ?thesis by (simp add: exampleInputs_def enhance_examples)
qed

section \<open>The click handler\<close>

text \<open>
  C6. For every promoted input whose pre-promotion pay or current pay is zero or
  negative, \<open>calculateEnhancements\<close> returns no result for any stage, and the handler
  produces no result and leaves a message, whatever the state held before. When no
  message was stored, as a click on the enabled button requires and as the stage effect
  leaves it for a promoted input, the message is the one of line 227, which asks for
  positive pay values.
\<close>

theorem promoted_non_positive:
  assumes "wasPromoted (inputs st)"
    and "prePromotionBasicPay2017 (inputs st) \<le> 0 \<or> currentRunningBasicPay (inputs st) \<le> 0"
  shows "calculateEnhancements PAY_SCALE_2017 (inputs st) stage = None \<and>
         results (handleCalculate PAY_SCALE_2017 st) = None \<and>
         error (handleCalculate PAY_SCALE_2017 st) \<noteq> None \<and>
         (error st = None \<longrightarrow>
            error (handleCalculate PAY_SCALE_2017 st) = Some PromotedNeedsPositive) \<and>
         results (handleCalculate PAY_SCALE_2017 (stageEffect PAY_SCALE_2022 st)) = None \<and>
         error (handleCalculate PAY_SCALE_2017 (stageEffect PAY_SCALE_2022 st)) =
           Some PromotedNeedsPositive"
proof -
  from assms have "calculateEnhancements PAY_SCALE_2017 (inputs st) stage = None"
    by (auto simp: calculateEnhancements_def draBase_def enhance_def split: option.splits)
  moreover from assms have "results (handleCalculate PAY_SCALE_2017 st) = None"
    "error (handleCalculate PAY_SCALE_2017 st) \<noteq> None"
    "error st = None \<longrightarrow>
       error (handleCalculate PAY_SCALE_2017 st) = Some PromotedNeedsPositive"
    by (auto simp: handleCalculate_def Let_def split: option.splits)
  moreover from assms(1)
  have eff: "stageEffect PAY_SCALE_2022 st = st\<lparr>error := None, foundStage := None\<rparr>"
    by (simp add: stageEffect_def)
  from assms have "results (handleCalculate PAY_SCALE_2017 (stageEffect PAY_SCALE_2022 st)) = None"
    "error (handleCalculate PAY_SCALE_2017 (stageEffect PAY_SCALE_2022 st)) =
       Some PromotedNeedsPositive"
    unfolding eff by (auto simp: handleCalculate_def Let_def)
  ultimately show ?thesis by simp
qed

theorem promoted_non_positive_witness:
  "wasPromoted (inputs (staleState promotedNoPayInputs)) \<and>
   prePromotionBasicPay2017 (inputs (staleState promotedNoPayInputs)) \<le> 0 \<and>
   calculateEnhancements exampleScale2017 promotedNoPayInputs None = None \<and>
   results (handleCalculate exampleScale2017
              (stageEffect exampleScale2022 (staleState promotedNoPayInputs))) = None \<and>
   error (handleCalculate exampleScale2017
            (stageEffect exampleScale2022 (staleState promotedNoPayInputs))) =
     Some PromotedNeedsPositive"
proof -
  have h: "wasPromoted (inputs (staleState promotedNoPayInputs))"
    "prePromotionBasicPay2017 (inputs (staleState promotedNoPayInputs)) \<le> 0 \<or>
     currentRunningBasicPay (inputs (staleState promotedNoPayInputs)) \<le> 0"
    by (simp_all add: staleState_def promotedNoPayInputs_def)
  from promoted_non_positive [OF h, of exampleScale2017 None exampleScale2022] h(1)
  show ?thesis by (simp add: staleState_def promotedNoPayInputs_def)
qed

section \<open>Two runs on the same inputs\<close>

text \<open>
  The effect overwrites the stored stage and message in every branch and keeps the
  inputs; the handler's outcome is a function of the inputs, the stored stage and the
  stored message.
\<close>

lemma stageEffect_inputs: "inputs (stageEffect PAY_SCALE_2022 st) = inputs st"
  by (simp add: stageEffect_def Let_def split: option.splits)

lemma stageEffect_stored:
  "inputs st1 = inputs st2 \<Longrightarrow>
   foundStage (stageEffect PAY_SCALE_2022 st1) = foundStage (stageEffect PAY_SCALE_2022 st2) \<and>
   error (stageEffect PAY_SCALE_2022 st1) = error (stageEffect PAY_SCALE_2022 st2)"
  by (simp add: stageEffect_def Let_def split: option.splits)

lemma handleCalculate_fields:
  "inputs (handleCalculate PAY_SCALE_2017 st) = inputs st"
  "foundStage (handleCalculate PAY_SCALE_2017 st) = foundStage st"
  "isLoading (handleCalculate PAY_SCALE_2017 st) = False"
  by (simp_all add: handleCalculate_def Let_def split: option.splits)

lemma handleCalculate_outcome:
  "inputs st1 = inputs st2 \<Longrightarrow> foundStage st1 = foundStage st2 \<Longrightarrow> error st1 = error st2 \<Longrightarrow>
   results (handleCalculate PAY_SCALE_2017 st1) = results (handleCalculate PAY_SCALE_2017 st2) \<and>
   error (handleCalculate PAY_SCALE_2017 st1) = error (handleCalculate PAY_SCALE_2017 st2)"
  by (simp add: handleCalculate_def Let_def split: option.splits)

text \<open>
  When the effect has run on the inputs, the state after the handler is determined by
  the inputs alone, whatever the state held before.
\<close>

lemma outcome_after_effect:
  assumes "inputs st1 = inputs st2"
  shows "handleCalculate PAY_SCALE_2017 (stageEffect PAY_SCALE_2022 st1) =
         handleCalculate PAY_SCALE_2017 (stageEffect PAY_SCALE_2022 st2)"
proof -
  let ?a = "stageEffect PAY_SCALE_2022 st1" and ?b = "stageEffect PAY_SCALE_2022 st2"
  from assms have i: "inputs ?a = inputs ?b" by (simp add: stageEffect_inputs)
  from stageEffect_stored [OF assms]
  have s: "foundStage ?a = foundStage ?b" "error ?a = error ?b" by simp_all
  from handleCalculate_outcome [OF i s]
  have "results (handleCalculate PAY_SCALE_2017 ?a) = results (handleCalculate PAY_SCALE_2017 ?b)"
    "error (handleCalculate PAY_SCALE_2017 ?a) = error (handleCalculate PAY_SCALE_2017 ?b)"
    by simp_all
  with i s show ?thesis
    by (intro app_state.equality) (simp_all add: handleCalculate_fields)
qed



text \<open>
  C10. For a promoted input the outcome does not depend on the current grade or on the
  stage passed: \<open>calculateEnhancements\<close> returns the same for any other grade and any
  other stage, and so does a whole run (stage effect, then handler). For a non-promoted
  input the outcome does not depend on the pre-promotion grade or the pre-promotion pay.
\<close>

theorem branch_noninterference:
  "(wasPromoted i \<longrightarrow>
      calculateEnhancements PAY_SCALE_2017 (i\<lparr>bps := g\<rparr>) stage' =
      calculateEnhancements PAY_SCALE_2017 i stage) \<and>
   (\<not> wasPromoted i \<longrightarrow>
      calculateEnhancements PAY_SCALE_2017
        (i\<lparr>prePromotionBps := g, prePromotionBasicPay2017 := p\<rparr>) stage =
      calculateEnhancements PAY_SCALE_2017 i stage) \<and>
   (wasPromoted (inputs st) \<longrightarrow>
      results (handleCalculate PAY_SCALE_2017
                 (stageEffect PAY_SCALE_2022 (st\<lparr>inputs := (inputs st)\<lparr>bps := g\<rparr>\<rparr>))) =
      results (handleCalculate PAY_SCALE_2017 (stageEffect PAY_SCALE_2022 st)) \<and>
      error (handleCalculate PAY_SCALE_2017
               (stageEffect PAY_SCALE_2022 (st\<lparr>inputs := (inputs st)\<lparr>bps := g\<rparr>\<rparr>))) =
      error (handleCalculate PAY_SCALE_2017 (stageEffect PAY_SCALE_2022 st))) \<and>
   (\<not> wasPromoted (inputs st) \<longrightarrow>
      results (handleCalculate PAY_SCALE_2017
                 (stageEffect PAY_SCALE_2022
                    (st\<lparr>inputs := (inputs st)\<lparr>prePromotionBps := g,
                                                 prePromotionBasicPay2017 := p\<rparr>\<rparr>))) =
      results (handleCalculate PAY_SCALE_2017 (stageEffect PAY_SCALE_2022 st)) \<and>
      error (handleCalculate PAY_SCALE_2017
               (stageEffect PAY_SCALE_2022
                  (st\<lparr>inputs := (inputs st)\<lparr>prePromotionBps := g,
                                               prePromotionBasicPay2017 := p\<rparr>\<rparr>))) =
      error (handleCalculate PAY_SCALE_2017 (stageEffect PAY_SCALE_2022 st)))"
proof (intro conjI impI)
  assume "wasPromoted i"
  then show "calculateEnhancements PAY_SCALE_2017 (i\<lparr>bps := g\<rparr>) stage' =
      calculateEnhancements PAY_SCALE_2017 i stage"
    by (simp add: calculateEnhancements_def draBase_def split: option.splits)
next
  assume "\<not> wasPromoted i"
  then show "calculateEnhancements PAY_SCALE_2017
        (i\<lparr>prePromotionBps := g, prePromotionBasicPay2017 := p\<rparr>) stage =
      calculateEnhancements PAY_SCALE_2017 i stage"
    by (simp add: calculateEnhancements_def draBase_def split: option.splits)
next
  assume p: "wasPromoted (inputs st)"
  then show "results (handleCalculate PAY_SCALE_2017
                 (stageEffect PAY_SCALE_2022 (st\<lparr>inputs := (inputs st)\<lparr>bps := g\<rparr>\<rparr>))) =
      results (handleCalculate PAY_SCALE_2017 (stageEffect PAY_SCALE_2022 st))"
    by (simp add: handleCalculate_def stageEffect_def Let_def calculateEnhancements_def
        draBase_def split: option.splits)
  from p show "error (handleCalculate PAY_SCALE_2017
               (stageEffect PAY_SCALE_2022 (st\<lparr>inputs := (inputs st)\<lparr>bps := g\<rparr>\<rparr>))) =
      error (handleCalculate PAY_SCALE_2017 (stageEffect PAY_SCALE_2022 st))"
    by (simp add: handleCalculate_def stageEffect_def Let_def calculateEnhancements_def
        draBase_def split: option.splits)
next
  let ?st' = "st\<lparr>inputs := (inputs st)\<lparr>prePromotionBps := g, prePromotionBasicPay2017 := p\<rparr>\<rparr>"
  assume n: "\<not> wasPromoted (inputs st)"
  have eff: "foundStage (stageEffect PAY_SCALE_2022 ?st') = foundStage (stageEffect PAY_SCALE_2022 st)"
    "error (stageEffect PAY_SCALE_2022 ?st') = error (stageEffect PAY_SCALE_2022 st)"
    by (simp_all add: stageEffect_def Let_def split: option.splits)
  have calc: "calculateEnhancements PAY_SCALE_2017 (inputs ?st') (foundStage (stageEffect PAY_SCALE_2022 st)) =
     calculateEnhancements PAY_SCALE_2017 (inputs st) (foundStage (stageEffect PAY_SCALE_2022 st))"
    using n by (simp add: calculateEnhancements_def draBase_def split: option.splits)
  show "results (handleCalculate PAY_SCALE_2017 (stageEffect PAY_SCALE_2022 ?st')) =
      results (handleCalculate PAY_SCALE_2017 (stageEffect PAY_SCALE_2022 st))"
    using n eff calc
    by (simp add: handleCalculate_def Let_def stageEffect_inputs split: option.splits)
  show "error (handleCalculate PAY_SCALE_2017 (stageEffect PAY_SCALE_2022 ?st')) =
      error (handleCalculate PAY_SCALE_2017 (stageEffect PAY_SCALE_2022 st))"
    using n eff calc
    by (simp add: handleCalculate_def Let_def stageEffect_inputs split: option.splits)
qed

theorem branch_noninterference_witness:
  "wasPromoted promotedInputs \<and> wasPromoted (inputs (freshState promotedInputs)) \<and>
   calculateEnhancements exampleScale2017 (promotedInputs\<lparr>bps := 3\<rparr>) (Some 5) =
   calculateEnhancements exampleScale2017 promotedInputs None \<and>
   results (handleCalculate exampleScale2017
              (stageEffect exampleScale2022
                 ((freshState promotedInputs)\<lparr>inputs :=
                    (inputs (freshState promotedInputs))\<lparr>bps := 3\<rparr>\<rparr>))) =
   results (handleCalculate exampleScale2017
              (stageEffect exampleScale2022 (freshState promotedInputs))) \<and>
   \<not> wasPromoted exampleInputs \<and> \<not> wasPromoted (inputs (freshState exampleInputs)) \<and>
   calculateEnhancements exampleScale2017
     (exampleInputs\<lparr>prePromotionBps := 3, prePromotionBasicPay2017 := 1\<rparr>) (Some 1) =
   calculateEnhancements exampleScale2017 exampleInputs (Some 1) \<and>
   results (handleCalculate exampleScale2017
              (stageEffect exampleScale2022
                 ((freshState exampleInputs)\<lparr>inputs :=
                    (inputs (freshState exampleInputs))\<lparr>prePromotionBps := 3,
                       prePromotionBasicPay2017 := 1\<rparr>\<rparr>))) =
   results (handleCalculate exampleScale2017
              (stageEffect exampleScale2022 (freshState exampleInputs)))"
proof -
  have h: "wasPromoted promotedInputs" "wasPromoted (inputs (freshState promotedInputs))"
    "\<not> wasPromoted exampleInputs" "\<not> wasPromoted (inputs (freshState exampleInputs))"
    by (simp_all add: promotedInputs_def exampleInputs_def freshState_def)
  from h
    branch_noninterference [of promotedInputs exampleScale2017 3 "Some 5" None 1
      "freshState promotedInputs" exampleScale2022]
    branch_noninterference [of exampleInputs exampleScale2017 3 "Some 1" "Some 1" 1
      "freshState exampleInputs" exampleScale2022]
  show ?thesis by simp
qed

end
